theory Spec2Isabelle
  imports Main "HOL-Library.Sublist"
begin

section \<open>Python values used by email\_classifier.py\<close>

text \<open>
  A Python \<open>str\<close> is a sequence of Unicode code points; it is modelled as a list of
  natural numbers, one per code point. \<open>u\<close> turns an ASCII literal into such a list.
\<close>

type_synonym ustr = "nat list"

definition u :: "string \<Rightarrow> ustr" where
  "u s = map of_char s"

text \<open>
  \<open>str.isspace\<close> on one code point. \<open>str.strip()\<close> and the \<open>\s\<close> of \<open>re\<close> (on
  \<open>str\<close> patterns) both use this set.
\<close>

definition isspace :: "nat \<Rightarrow> bool" where
  "isspace c \<longleftrightarrow>
     (9 \<le> c \<and> c \<le> 13) \<or> (28 \<le> c \<and> c \<le> 32) \<or> c = 133 \<or> c = 160 \<or> c = 5760 \<or>
     (8192 \<le> c \<and> c \<le> 8202) \<or> c = 8232 \<or> c = 8233 \<or> c = 8239 \<or> c = 8287 \<or> c = 12288"

definition strip :: "ustr \<Rightarrow> ustr" where
  "strip s = rev (dropWhile isspace (rev (dropWhile isspace s)))"

text \<open>
  JSON numbers with a fraction or exponent decode to a Python \<open>float\<close>. The classifier
  never computes with one; only its truth value (non-zero) is ever read.
\<close>

datatype pyfloat =
    FFinite (negative: bool) (mantissa: nat) (exponent: int)
  | FInf bool
  | FNaN

text \<open>
  What \<open>json.loads\<close> can return. A \<open>dict\<close> keeps insertion order, so it is an
  association list (its keys are distinct).
\<close>

datatype pyval =
    PNone
  | PBool bool
  | PInt int
  | PFloat pyfloat
  | PStr ustr
  | PList "pyval list"
  | PDict "(ustr \<times> pyval) list"

text \<open>Python's truth value testing, as \<open>if x\<close>, \<open>not x\<close> and \<open>x and y\<close> use it.\<close>

fun truthy :: "pyval \<Rightarrow> bool" where
  "truthy PNone = False"
| "truthy (PBool b) = b"
| "truthy (PInt n) = (n \<noteq> 0)"
| "truthy (PFloat (FFinite s m e)) = (m \<noteq> 0)"
| "truthy (PFloat (FInf s)) = True"
| "truthy (PFloat FNaN) = True"
| "truthy (PStr s) = (s \<noteq> [])"
| "truthy (PList xs) = (xs \<noteq> [])"
| "truthy (PDict kvs) = (kvs \<noteq> [])"

text \<open>\<open>d.get(key, default)\<close> on a dict.\<close>

definition dict_get :: "(ustr \<times> pyval) list \<Rightarrow> ustr \<Rightarrow> pyval \<Rightarrow> pyval" where
  "dict_get d k dflt = (case map_of d k of None \<Rightarrow> dflt | Some v \<Rightarrow> v)"

text \<open>
  The exceptions that the modelled code meets. \<open>JSONDecodeError\<close> is the one that lines 274,
  280 and 289 catch; the others are caught nowhere but by the \<open>except Exception\<close> around the
  backend call.
\<close>

datatype py_error =
    AttributeError
  | TypeError
  | KeyError
  | JSONDecodeError
  | RecursionError
  | ValueError
  | UnicodeEncodeError

text \<open>
  Python slicing \<open>xs[i:j]\<close>: a negative index counts from the end, and both ends are
  clamped to the list.
\<close>

definition norm_index :: "nat \<Rightarrow> int \<Rightarrow> nat" where
  "norm_index n i = (if i < 0 then nat (int n + i) else min n (nat i))"

definition py_slice :: "'a list \<Rightarrow> int \<Rightarrow> int \<Rightarrow> 'a list" where
  "py_slice xs i j =
     (let a = norm_index (length xs) i; b = norm_index (length xs) j
      in take (b - a) (drop a xs))"

section \<open>The data classes\<close>

record EmailInput =
  subject :: ustr
  body :: ustr
  sender :: ustr
  date :: ustr

text \<open>
  The dataclass declares a type for each field, but Python stores whatever is assigned:
  the fields hold Python values.
\<close>

record ClassificationResult =
  category :: pyval
  category_description :: pyval
  urgency :: pyval
  urgency_reason :: pyval
  summary :: pyval
  key_points :: pyval
  recommended_department :: pyval
  recommended_lab :: pyval
  recommended_team :: pyval
  recommended_researchers :: pyval
  suggested_actions :: pyval
  raw_response :: pyval

text \<open>\<open>ClassificationResult()\<close>: every field at its declared default.\<close>

definition ClassificationResult_default :: ClassificationResult where
  "ClassificationResult_default =
     \<lparr> category = PStr [], category_description = PStr [], urgency = PStr [],
       urgency_reason = PStr [], summary = PStr [], key_points = PList [],
       recommended_department = PStr [], recommended_lab = PStr [],
       recommended_team = PStr [], recommended_researchers = PList [],
       suggested_actions = PList [], raw_response = PStr [] \<rparr>"

text \<open>
  The types that the dataclass declares for its fields: \<open>str\<close>, \<open>list[str]\<close> for
  \<open>key_points\<close> and \<open>suggested_actions\<close>, \<open>list[dict]\<close> for \<open>recommended_researchers\<close>.
\<close>

definition is_text :: "pyval \<Rightarrow> bool" where
  "is_text v = (case v of PStr s \<Rightarrow> True | _ \<Rightarrow> False)"

definition is_dict :: "pyval \<Rightarrow> bool" where
  "is_dict v = (case v of PDict kvs \<Rightarrow> True | _ \<Rightarrow> False)"

definition is_list_of :: "(pyval \<Rightarrow> bool) \<Rightarrow> pyval \<Rightarrow> bool" where
  "is_list_of p v = (case v of PList xs \<Rightarrow> list_all p xs | _ \<Rightarrow> False)"

definition well_formed :: "ClassificationResult \<Rightarrow> bool" where
  "well_formed r \<longleftrightarrow>
     is_text (category r) \<and> is_text (category_description r) \<and> is_text (urgency r)
     \<and> is_text (urgency_reason r) \<and> is_text (summary r) \<and> is_list_of is_text (key_points r)
     \<and> is_text (recommended_department r) \<and> is_text (recommended_lab r)
     \<and> is_text (recommended_team r) \<and> is_list_of is_dict (recommended_researchers r)
     \<and> is_list_of is_text (suggested_actions r) \<and> is_text (raw_response r)"

text \<open>
  One value of \<open>researcher_db\<close>, as preprocess\_researchers.py writes it: text fields and a
  boolean flag. The classifier reads each field with \<open>info.get\<close> (or \<open>info["name"]\<close>), so a
  field may be absent: \<open>None\<close> is the absent key. The keys \<open>code\<close> and \<open>note\<close> of the stored
  record are never read by the classifier and are left out.
\<close>

record StaffRecord =
  info_name :: "ustr option"
  info_department :: "ustr option"
  info_lab :: "ustr option"
  info_team :: "ustr option"
  info_position :: "ustr option"
  info_email :: "ustr option"
  info_email_verified :: "bool option"

text \<open>\<open>researcher_db\<close>: a dict from staff code to record, in insertion order.\<close>

type_synonym researcher_db = "(ustr \<times> StaffRecord) list"

definition get_or :: "'a option \<Rightarrow> 'a \<Rightarrow> 'a" where
  "get_or field dflt = (case field of None \<Rightarrow> dflt | Some v \<Rightarrow> v)"

section \<open>The module constants\<close>

text \<open>
  Literals that are not ASCII are written as their code points. \<open>GEMINI_MODELS\<close> is the
  priority list of model names; \<open>CATEGORIES\<close> and \<open>URGENCY_LEVELS\<close> are the two dicts of
  label and description, in the order of the source (lines 38-64).
\<close>

definition GEMINI_MODELS :: "ustr list" where
  "GEMINI_MODELS =
    [u ''gemini-2.0-flash'',
     u ''gemini-2.5-flash'',
     u ''gemini-2.0-flash-lite'',
     u ''gemini-2.5-flash-lite'']"

definition CATEGORIES :: "(ustr \<times> ustr) list" where
  "CATEGORIES =
    [([50896, 47308, 95, 47928, 51032],
      [50896, 47308, 32, 44288, 47144, 32, 47928, 51032, 44, 32, 50896, 47308, 32, 49828,
       54169, 44, 32, 50896, 47308, 32, 52628, 52380, 44, 32, 50896, 47308, 32, 48320, 44221]),
     ([52376, 48169, 95, 50836, 52397],
      [49888, 51228, 54408, 32, 52376, 48169, 32, 44060, 48156, 44, 32, 52376, 48169, 32,
       48320, 44221, 44, 32, 52376, 48169, 32, 52572, 51201, 54868, 32, 50836, 52397]),
     ([54408, 51656, 95, 51060, 49800],
      [51228, 54408, 32, 54408, 51656, 32, 47928, 51228, 44, 32, 53364, 47112, 51076, 44, 32,
       48520, 47049, 44, 32, 50504, 51221, 49457, 32, 51060, 49800]),
     ([51068, 51221, 95, 51312, 50984],
      [44060, 48156, 32, 51068, 51221, 44, 32, 45225, 44592, 44, 32, 48120, 54021, 32, 51068,
       51221, 44, 32, 49368, 54540, 32, 51068, 51221]),
     ([44508, 51228, 95, 51064, 54728, 44032],
      [51064, 54728, 44032, 44, 32, 44508, 51228, 44, 32, 49457, 48516, 32, 44508, 51228, 44,
       32, 49688, 52636, 32, 44508, 51221, 44, 32, 73, 78, 67, 73]),
     ([49368, 54540, 95, 50836, 52397],
      [49368, 54540, 32, 51228, 51089, 44, 32, 49368, 54540, 32, 48156, 49569, 44, 32, 49884,
       51228, 54408, 32, 50836, 52397]),
     ([44592, 49696, 95, 44160, 53664],
      [44592, 49696, 32, 44160, 53664, 44, 32, 53945, 54728, 44, 32, 44592, 49696, 32, 51088,
       47928, 44, 32, 44277, 51221, 32, 47928, 51032]),
     ([44204, 51201, 95, 44228, 50557],
      [44204, 51201, 49436, 44, 32, 45800, 44032, 44, 32, 44228, 50557, 44, 32, 77, 79, 81, 44,
       32, 44144, 47000, 32, 51312, 44148]),
     ([44592, 53440],
      [50948, 32, 52852, 53580, 44256, 47532, 50640, 32, 54644, 45817, 54616, 51648, 32, 50506,
       45716, 32, 51068, 48152, 32, 47928, 51032])]"

definition URGENCY_LEVELS :: "(ustr \<times> ustr) list" where
  "URGENCY_LEVELS =
    [([44596, 44553],
      [51593, 49884, 32, 45824, 51025, 32, 54596, 50836, 32, 40, 54408, 51656, 32, 49324,
       44256, 44, 32, 46972, 51064, 32, 51473, 45800, 44, 32, 53364, 47112, 51076, 32, 46321,
       41]),
     ([45458, 51020],
      [45817, 51068, 32, 46608, 45716, 32, 51061, 51068, 32, 45824, 51025, 32, 54596, 50836,
       32, 40, 45225, 44592, 32, 51076, 48149, 44, 32, 44256, 44061, 32, 44596, 44553, 32,
       50836, 52397, 41]),
     ([48372, 53685],
      [51068, 48152, 51201, 51064, 32, 50629, 47924, 32, 52376, 47532, 32, 40, 51, 45, 53,
       51068, 32, 45236, 32, 45824, 51025, 41]),
     ([45230, 51020],
      [52280, 44256, 47, 51221, 48372, 32, 44277, 50976, 32, 49457, 44201, 32, 40, 51068,
       51452, 51068, 32, 51060, 45236, 32, 45824, 51025, 41])]"

text \<open>The label \<open>(unknown)\<close> of lines 183-184, in Korean.\<close>

definition unknown_marker :: ustr where
  "unknown_marker = [40, 48120, 49345, 41]"

text \<open>The default category (the last key of \<open>CATEGORIES\<close>) and the default urgency.\<close>

definition default_category :: ustr where
  "default_category = [44592, 53440]"

definition default_urgency :: ustr where
  "default_urgency = [48372, 53685]"

text \<open>The prefix of the summary after a failed backend call (line 321).\<close>

definition backend_failed_prefix :: ustr where
  "backend_failed_prefix = [48516, 47448, 32, 49892, 54056, 58, 32]"

text \<open>
  The constant texts of the messages that \<open>classify_email\<close> prints: the start of the error
  line of line 320, the warning of line 327, and the start of the debug line of line 328,
  which ends in a line break.
\<close>

definition backend_failed_message :: ustr where
  "backend_failed_message =
     [91, 50640, 47084, 93, 32, 71, 101, 109, 105, 110, 105, 32, 65, 80, 73, 32, 54840, 52636,
      32, 49892, 54056, 58, 32]"

definition parse_failed_warning :: ustr where
  "parse_failed_warning =
     [91, 44221, 44256, 93, 32, 71, 101, 109, 105, 110, 105, 32, 51025, 45813, 32, 74, 83, 79,
      78, 32, 54028, 49905, 32, 49892, 54056]"

definition debug_prefix :: ustr where
  "debug_prefix = [91, 68, 69, 66, 85, 71, 93, 32, 50896, 48376, 32, 51025, 45813, 58, 10]"

text \<open>The summary after a failed parse (line 329).\<close>

definition parse_failed_summary :: ustr where
  "parse_failed_summary =
     [74, 83, 79, 78, 32, 54028, 49905, 32, 49892, 54056, 32, 8212, 32, 50896, 48376, 32,
      51025, 45813, 51012, 32, 54869, 51064, 54616, 49464, 50836]"

section \<open>configure\_gemini\<close>










section \<open>build\_classification\_prompt\<close>

text \<open>\<open>sep.join(parts)\<close>.\<close>

fun join :: "ustr \<Rightarrow> ustr list \<Rightarrow> ustr" where
  "join sep [] = []"
| "join sep [x] = x"
| "join sep (x # y # ys) = x @ sep @ join sep (y # ys)"

text \<open>Lines 170-175: one line \<open>"  - key: value"\<close> per entry of a dict, joined by line breaks.\<close>

definition taxonomy_text :: "(ustr \<times> ustr) list \<Rightarrow> ustr" where
  "taxonomy_text d = join [10] (map (\<lambda>(k, v). u ''  - '' @ k @ u '': '' @ v) d)"

text \<open>
  The constant pieces of the f-string of lines 177-217, between its eight fields, each
  as the code points of the source text.
\<close>

text \<open>Source lines 177-183: the introduction, the heading of the email section and the sender label.\<close>

definition prompt_text_0 :: ustr where
  "prompt_text_0 =
     [45817, 49888, 51008, 32, 53076, 49828, 47589, 49828, 40, 67, 111, 115, 109, 97, 120, 41,
      32, 54868, 51109, 54408, 32, 79, 69, 77, 32, 54924, 49324, 51032, 32, 51060, 47700,
      51068, 32, 48516, 47448, 32, 51204, 47928, 44032, 51077, 45768, 45796, 46, 10, 53076,
      49828, 47589, 49828, 45716, 32, 54620, 44397, 51032, 32, 54868, 51109, 54408, 32, 79, 69,
      77, 47, 79, 68, 77, 32, 44592, 50629, 51004, 47196, 44, 32, 49828, 53416, 52992, 50612,
      44, 32, 47700, 51060, 53356, 50629, 44, 32, 49440, 52992, 50612, 32, 46321, 51012, 32,
      50672, 44396, 183, 44060, 48156, 183, 49373, 49328, 54633, 45768, 45796, 46, 10, 10,
      50500, 47000, 32, 51060, 47700, 51068, 51012, 32, 48516, 49437, 54616, 50668, 32, 74, 83,
      79, 78, 32, 54805, 49885, 51004, 47196, 32, 48516, 47448, 32, 44208, 44284, 47484, 32,
      48152, 54872, 54616, 49464, 50836, 46, 10, 10, 61, 61, 61, 32, 51060, 47700, 51068, 32,
      51221, 48372, 32, 61, 61, 61, 10, 48156, 49888, 51088, 58, 32]"

text \<open>Source line 184: a line break and the date label.\<close>

definition prompt_text_1 :: ustr where
  "prompt_text_1 =
     [10, 45216, 51676, 58, 32]"

text \<open>Source line 185: a line break and the subject label.\<close>

definition prompt_text_2 :: ustr where
  "prompt_text_2 =
     [10, 51228, 47785, 58, 32]"

text \<open>Source lines 186-187: a blank line and the body label on its own line.\<close>

definition prompt_text_3 :: ustr where
  "prompt_text_3 =
     [10, 10, 48376, 47928, 58, 10]"

text \<open>Source lines 189-190: a blank line and the heading of the category list.\<close>

definition prompt_text_4 :: ustr where
  "prompt_text_4 =
     [10, 10, 61, 61, 61, 32, 48516, 47448, 32, 52852, 53580, 44256, 47532, 32, 61, 61, 61, 10]"

text \<open>Source lines 192-193: a blank line and the heading of the urgency levels.\<close>

definition prompt_text_5 :: ustr where
  "prompt_text_5 =
     [10, 10, 61, 61, 61, 32, 44596, 44553, 46020, 32, 47112, 48296, 32, 61, 61, 61, 10]"

text \<open>Source lines 195-196: a blank line and the heading of the laboratory structure.\<close>

definition prompt_text_6 :: ustr where
  "prompt_text_6 =
     [10, 10, 61, 61, 61, 32, 53076, 49828, 47589, 49828, 32, 50672, 44396, 49548, 32, 44396,
      51312, 32, 61, 61, 61, 10]"

text \<open>Source lines 198-217: the response format (a JSON example) and the closing instructions.\<close>

definition prompt_text_7 :: ustr where
  "prompt_text_7 =
     [10, 10, 61, 61, 61, 32, 51025, 45813, 32, 54805, 49885, 32, 40, 48152, 46300, 49884, 32,
      74, 83, 79, 78, 47564, 32, 48152, 54872, 41, 32, 61, 61, 61, 10, 123, 10, 32, 32, 34, 99,
      97, 116, 101, 103, 111, 114, 121, 34, 58, 32, 34, 52852, 53580, 44256, 47532, 47749, 32,
      40, 50948, 32, 47785, 47197, 50640, 49436, 32, 49440, 53469, 41, 34, 44, 10, 32, 32, 34,
      99, 97, 116, 101, 103, 111, 114, 121, 95, 100, 101, 115, 99, 114, 105, 112, 116, 105,
      111, 110, 34, 58, 32, 34, 54644, 45817, 32, 52852, 53580, 44256, 47532, 47196, 32, 48516,
      47448, 54620, 32, 51060, 50976, 32, 40, 49, 47928, 51109, 41, 34, 44, 10, 32, 32, 34,
      117, 114, 103, 101, 110, 99, 121, 34, 58, 32, 34, 44596, 44553, 47, 45458, 51020, 47,
      48372, 53685, 47, 45230, 51020, 34, 44, 10, 32, 32, 34, 117, 114, 103, 101, 110, 99, 121,
      95, 114, 101, 97, 115, 111, 110, 34, 58, 32, 34, 44596, 44553, 46020, 32, 54032, 45800,
      32, 44540, 44144, 32, 40, 49, 47928, 51109, 41, 34, 44, 10, 32, 32, 34, 115, 117, 109,
      109, 97, 114, 121, 34, 58, 32, 34, 51060, 47700, 51068, 32, 54645, 49900, 32, 45236,
      50857, 32, 50836, 50557, 32, 40, 50, 45, 51, 47928, 51109, 41, 34, 44, 10, 32, 32, 34,
      107, 101, 121, 95, 112, 111, 105, 110, 116, 115, 34, 58, 32, 91, 34, 54645, 49900, 32,
      54252, 51064, 53944, 49, 34, 44, 32, 34, 54645, 49900, 32, 54252, 51064, 53944, 50, 34,
      93, 44, 10, 32, 32, 34, 114, 101, 99, 111, 109, 109, 101, 110, 100, 101, 100, 95, 100,
      101, 112, 97, 114, 116, 109, 101, 110, 116, 34, 58, 32, 34, 52628, 52380, 32, 45812,
      45817, 32, 50672, 44396, 49548, 34, 44, 10, 32, 32, 34, 114, 101, 99, 111, 109, 109, 101,
      110, 100, 101, 100, 95, 108, 97, 98, 34, 58, 32, 34, 52628, 52380, 32, 45812, 45817, 32,
      47017, 34, 44, 10, 32, 32, 34, 114, 101, 99, 111, 109, 109, 101, 110, 100, 101, 100, 95,
      116, 101, 97, 109, 34, 58, 32, 34, 52628, 52380, 32, 45812, 45817, 32, 54016, 32, 40,
      50508, 32, 49688, 32, 50630, 51004, 47732, 32, 48712, 32, 47928, 51088, 50676, 41, 34,
      44, 10, 32, 32, 34, 115, 117, 103, 103, 101, 115, 116, 101, 100, 95, 97, 99, 116, 105,
      111, 110, 115, 34, 58, 32, 91, 34, 52628, 52380, 32, 50529, 49496, 49, 34, 44, 32, 34,
      52628, 52380, 32, 50529, 49496, 50, 34, 44, 32, 34, 52628, 52380, 32, 50529, 49496, 51,
      34, 93, 10, 125, 10, 10, 51473, 50836, 58, 10, 45, 32, 48152, 46300, 49884, 32, 50976,
      54952, 54620, 32, 74, 83, 79, 78, 47564, 32, 48152, 54872, 54616, 49464, 50836, 46, 32,
      49444, 47749, 51060, 45208, 32, 47560, 53356, 45796, 50868, 32, 50630, 51060, 32, 74, 83,
      79, 78, 47564, 32, 52636, 47141, 54616, 49464, 50836, 46, 10, 45, 32, 53076, 49828,
      47589, 49828, 32, 50672, 44396, 49548, 32, 44396, 51312, 47484, 32, 52280, 44256, 54616,
      50668, 32, 44032, 51109, 32, 51201, 54633, 54620, 32, 48512, 49436, 47484, 32, 52628,
      52380, 54616, 49464, 50836, 46, 10, 45, 32, 47784, 46304, 32, 51025, 45813, 51008, 32,
      54620, 44397, 50612, 47196, 32, 51089, 49457, 54616, 49464, 50836, 46, 10]"

text \<open>\<open>x or '(unknown)'\<close>: the text itself unless it is empty.\<close>

definition or_unknown :: "ustr \<Rightarrow> ustr" where
  "or_unknown x = (if x \<noteq> [] then x else unknown_marker)"

definition build_classification_prompt :: "EmailInput \<Rightarrow> ustr \<Rightarrow> ustr" where
  "build_classification_prompt em dept_summary =
     (let categories_text = taxonomy_text CATEGORIES;
          urgency_text = taxonomy_text URGENCY_LEVELS
      in prompt_text_0 @ or_unknown (sender em)
         @ prompt_text_1 @ or_unknown (date em)
         @ prompt_text_2 @ subject em
         @ prompt_text_3 @ body em
         @ prompt_text_4 @ categories_text
         @ prompt_text_5 @ urgency_text
         @ prompt_text_6 @ dept_summary
         @ prompt_text_7)"

section \<open>find\_matching\_researchers\<close>

text \<open>
  \<open>guess and r and guess in r\<close>, where \<open>r\<close> is a text field of the directory and \<open>guess\<close> is
  whatever the caller passes. \<open>x in r\<close> on a \<open>str\<close> is substring containment and raises
  \<open>TypeError\<close> when \<open>x\<close> is not a \<open>str\<close>; \<open>and\<close> stops at the first false operand.
\<close>

definition field_match :: "pyval \<Rightarrow> ustr \<Rightarrow> py_error + bool" where
  "field_match guess r =
     (if \<not> truthy guess then Inr False
      else if r = [] then Inr False
      else (case guess of PStr g \<Rightarrow> Inr (sublist g r) | _ \<Rightarrow> Inl TypeError))"

text \<open>The score of one record: the three tests of the loop body, in their order.\<close>

definition score_record :: "StaffRecord \<Rightarrow> pyval \<Rightarrow> pyval \<Rightarrow> pyval \<Rightarrow> py_error + int" where
  "score_record info department lab team =
     (let r_dept = get_or (info_department info) [];
          r_lab = get_or (info_lab info) [];
          r_team = get_or (info_team info) []
      in case field_match department r_dept of
           Inl e \<Rightarrow> Inl e
         | Inr m1 \<Rightarrow>
             (case field_match lab r_lab of
                Inl e \<Rightarrow> Inl e
              | Inr m2 \<Rightarrow>
                  (case field_match team r_team of
                     Inl e \<Rightarrow> Inl e
                   | Inr m3 \<Rightarrow>
                       Inr ((if m1 then 3 else 0) + (if m2 then 2 else 0)
                            + (if m3 then 1 else 0)))))"

text \<open>The dict appended for a record that scores; \<open>info["name"]\<close> raises when absent.\<close>

definition make_candidate :: "ustr \<Rightarrow> StaffRecord \<Rightarrow> int \<Rightarrow> py_error + pyval" where
  "make_candidate code info score =
     (case info_name info of
        None \<Rightarrow> Inl KeyError
      | Some n \<Rightarrow>
          Inr (PDict
            [(u ''code'', PStr code),
             (u ''name'', PStr n),
             (u ''department'', PStr (get_or (info_department info) [])),
             (u ''lab'', PStr (get_or (info_lab info) [])),
             (u ''team'', PStr (get_or (info_team info) [])),
             (u ''position'', PStr (get_or (info_position info) [])),
             (u ''email'', PStr (get_or (info_email info) [])),
             (u ''email_verified'', PBool (get_or (info_email_verified info) False)),
             (u ''match_score'', PInt score)]))"

text \<open>The \<open>for code, info in researcher_db.items()\<close> loop, building \<open>candidates\<close>.\<close>

fun collect_candidates ::
  "researcher_db \<Rightarrow> pyval \<Rightarrow> pyval \<Rightarrow> pyval \<Rightarrow> py_error + pyval list" where
  "collect_candidates [] department lab team = Inr []"
| "collect_candidates ((code, info) # rest) department lab team =
     (case score_record info department lab team of
        Inl e \<Rightarrow> Inl e
      | Inr score \<Rightarrow>
          if score > 0 then
            (case make_candidate code info score of
               Inl e \<Rightarrow> Inl e
             | Inr c \<Rightarrow>
                 (case collect_candidates rest department lab team of
                    Inl e \<Rightarrow> Inl e
                  | Inr cs \<Rightarrow> Inr (c # cs)))
          else collect_candidates rest department lab team)"

text \<open>
  The sort key \<open>x["match_score"]\<close>. Every dict the loop appends has this key with an
  \<open>int\<close>; on anything else the lookup would raise, which the loop's output never meets.
\<close>

definition match_score_of :: "pyval \<Rightarrow> int" where
  "match_score_of x =
     (case x of
        PDict kvs \<Rightarrow> (case map_of kvs (u ''match_score'') of Some (PInt n) \<Rightarrow> n | _ \<Rightarrow> 0)
      | _ \<Rightarrow> 0)"

text \<open>
  \<open>list.sort(key=..., reverse=True)\<close> on integer keys: a stable sort in which every
  comparison is reversed.
\<close>

definition sort_reverse :: "('a \<Rightarrow> int) \<Rightarrow> 'a list \<Rightarrow> 'a list" where
  "sort_reverse key xs = sort_key (\<lambda>x. - key x) xs"

definition find_matching_researchers ::
  "researcher_db \<Rightarrow> pyval \<Rightarrow> pyval \<Rightarrow> pyval \<Rightarrow> int \<Rightarrow> py_error + pyval list" where
  "find_matching_researchers db department lab team limit =
     (case collect_candidates db department lab team of
        Inl e \<Rightarrow> Inl e
      | Inr candidates \<Rightarrow> Inr (py_slice (sort_reverse match_score_of candidates) 0 limit))"

section \<open>parse\_gemini\_response\<close>

text \<open>
  \<open>json.loads\<close> belongs to Python's library, not to this program: it is a parameter
  \<open>loads\<close> of the functions that call it. \<open>loads s = Inr v\<close> is the decoded value, which may
  be of any JSON type; \<open>loads s = Inl e\<close> is the exception it raises. On a text that is not
  JSON this is \<open>json.JSONDecodeError\<close> as a rule, but not always: brackets nested too
  deeply raise \<open>RecursionError\<close>, and an integer of too many digits raises a plain
  \<open>ValueError\<close>.
\<close>

type_synonym decoder = "ustr \<Rightarrow> py_error + pyval"

text \<open>
  The pattern of line 268, \<open>```(?:json)?\s*\n(.*?)```\<close> with \<open>re.DOTALL\<close>, is matched as the
  backtracking matcher of \<open>re\<close> does it. \<open>split_first pat s\<close> cuts \<open>s\<close> at the first
  occurrence of \<open>pat\<close>: the text before it and the text after it. With \<open>pat\<close> the closing
  fence this is the lazy group \<open>(.*?)\<close> followed by the fence.
\<close>

definition fence :: ustr where
  "fence = u ''```''"

fun split_first :: "ustr \<Rightarrow> ustr \<Rightarrow> (ustr \<times> ustr) option" where
  "split_first pat [] = (if pat = [] then Some ([], []) else None)"
| "split_first pat (c # cs) =
     (if prefix pat (c # cs) then Some ([], drop (length pat) (c # cs))
      else (case split_first pat cs of
              None \<Rightarrow> None
            | Some (before, after) \<Rightarrow> Some (c # before, after)))"

text \<open>
  \<open>\s*\n(.*?)```\<close> on \<open>s\<close> when \<open>\s*\<close> has taken \<open>j\<close> characters: the next one must be a line
  break, and a closing fence must follow somewhere.
\<close>

definition newline_group_fence :: "nat \<Rightarrow> ustr \<Rightarrow> (ustr \<times> ustr) option" where
  "newline_group_fence j s =
     (case drop j s of
        [] \<Rightarrow> None
      | c # r \<Rightarrow> if c = 10 then split_first fence r else None)"

text \<open>\<open>\s*\<close> is greedy: it gives back one character at a time, from \<open>j\<close> down to none.\<close>

fun backtrack_spaces :: "nat \<Rightarrow> ustr \<Rightarrow> (ustr \<times> ustr) option" where
  "backtrack_spaces 0 s = newline_group_fence 0 s"
| "backtrack_spaces (Suc j) s =
     (case newline_group_fence (Suc j) s of
        Some m \<Rightarrow> Some m
      | None \<Rightarrow> backtrack_spaces j s)"

definition spaces_newline_group_fence :: "ustr \<Rightarrow> (ustr \<times> ustr) option" where
  "spaces_newline_group_fence s = backtrack_spaces (length (takeWhile isspace s)) s"

text \<open>
  A match of the whole pattern at the start of \<open>s\<close>: the group and the text after the match.
  The optional \<open>json\<close> is tried first, then the pattern without it.
\<close>

definition match_fence :: "ustr \<Rightarrow> (ustr \<times> ustr) option" where
  "match_fence s =
     (if prefix fence s then
        (let r = drop (length fence) s in
         case (if prefix (u ''json'') r
               then spaces_newline_group_fence (drop (length (u ''json'')) r)
               else None) of
           Some m \<Rightarrow> Some m
         | None \<Rightarrow> spaces_newline_group_fence r)
      else None)"

lemma split_first_length:
  "split_first pat s = Some (before, after) \<Longrightarrow> length after \<le> length s"
proof (induction s arbitrary: before after)
  case Nil
  then show ?case by (simp split: if_splits)
next
  case (Cons c cs)
  then show ?case
    by (auto split: if_splits option.splits)
qed

lemma newline_group_fence_length:
  "newline_group_fence j s = Some (g, rest) \<Longrightarrow> length rest \<le> length s"
proof -
  assume a: "newline_group_fence j s = Some (g, rest)"
  then obtain c r where d: "drop j s = c # r" and sp: "split_first fence r = Some (g, rest)"
    by (auto simp: newline_group_fence_def split: list.splits if_splits)
  have "length rest \<le> length r" using sp by (rule split_first_length)
  moreover have "length r \<le> length s"
    using d by (metis length_drop diff_le_self le_trans length_Cons le_SucI order_refl)
  ultimately show ?thesis by simp
qed

lemma backtrack_spaces_length:
  "backtrack_spaces j s = Some (g, rest) \<Longrightarrow> length rest \<le> length s"
  by (induction j) (auto split: option.splits dest: newline_group_fence_length)

lemma match_fence_length:
  "match_fence s = Some (g, rest) \<Longrightarrow> length rest < length s"
proof -
  assume a: "match_fence s = Some (g, rest)"
  then have p: "prefix fence s"
    by (simp add: match_fence_def split: if_splits)
  then have l: "length (drop (length fence) s) < length s"
    by (auto simp: fence_def u_def prefix_def)
  from a p have
    "spaces_newline_group_fence (drop (length (u ''json'')) (drop (length fence) s)) = Some (g, rest)
     \<or> spaces_newline_group_fence (drop (length fence) s) = Some (g, rest)"
    by (auto simp: match_fence_def Let_def split: if_splits option.splits)
  then have "length rest \<le> length (drop (length fence) s)"
    by (auto simp: spaces_newline_group_fence_def dest!: backtrack_spaces_length)
  with l show ?thesis by simp
qed

text \<open>
  \<open>re.findall\<close>: the groups of the matches found from left to right, the search going on
  where a match ends, or one character further where there is none.
\<close>

function findall_fence :: "ustr \<Rightarrow> ustr list" where
  "findall_fence [] = []"
| "findall_fence (c # cs) =
     (case match_fence (c # cs) of
        Some (g, rest) \<Rightarrow> g # findall_fence rest
      | None \<Rightarrow> findall_fence cs)"
  by pat_completeness auto
termination
  by (relation "measure length") (auto dest: match_fence_length)

text \<open>
  Lines 271-275: \<open>json.loads(block.strip())\<close> on the blocks in the order given. The first
  value decoded is returned (\<open>Inr (Some v)\<close>); \<open>json.JSONDecodeError\<close> goes on to the next
  block; any other exception leaves the loop and the function (\<open>Inl\<close>); \<open>Inr None\<close> is the
  end of the loop without a value.
\<close>

fun first_decoded :: "decoder \<Rightarrow> ustr list \<Rightarrow> py_error + pyval option" where
  "first_decoded loads [] = Inr None"
| "first_decoded loads (block # blocks) =
     (case loads (strip block) of
        Inr v \<Rightarrow> Inr (Some v)
      | Inl err \<Rightarrow>
          if err = JSONDecodeError then first_decoded loads blocks else Inl err)"

text \<open>\<open>text.find(c)\<close> and \<open>text.rfind(c)\<close> for one character: an index, or \<open>-1\<close>.\<close>

definition find_char :: "ustr \<Rightarrow> nat \<Rightarrow> int" where
  "find_char s c =
     (if c \<in> set s then int (length (takeWhile (\<lambda>x. x \<noteq> c) s)) else - 1)"

definition rfind_char :: "ustr \<Rightarrow> nat \<Rightarrow> int" where
  "rfind_char s c =
     (if c \<in> set s
      then int (length s) - 1 - int (length (takeWhile (\<lambda>x. x \<noteq> c) (rev s)))
      else - 1)"

text \<open>
  \<open>parse_gemini_response\<close>. \<open>Inr\<close> is the value returned, \<open>Inl\<close> an exception that leaves
  the function: each of the three \<open>try\<close> statements catches \<open>json.JSONDecodeError\<close> only.
\<close>

definition parse_gemini_response :: "decoder \<Rightarrow> ustr \<Rightarrow> py_error + pyval" where
  "parse_gemini_response loads response_text =
     (let text = strip response_text;
          code_blocks = findall_fence text
      in case first_decoded loads (rev code_blocks) of
           Inl err \<Rightarrow> Inl err
         | Inr (Some v) \<Rightarrow> Inr v
         | Inr None \<Rightarrow>
             (case loads text of
                Inr v \<Rightarrow> Inr v
              | Inl err \<Rightarrow>
                  if err \<noteq> JSONDecodeError then Inl err
                  else
                    (let start = find_char text 123;
                         end = rfind_char text 125 + 1
                     in if start \<ge> 0 \<and> end > start then
                          (case loads (py_slice text start end) of
                             Inr v \<Rightarrow> Inr v
                           | Inl err \<Rightarrow>
                               if err = JSONDecodeError then Inr (PDict []) else Inl err)
                        else Inr (PDict []))))"

text \<open>
  The texts that \<open>parse_gemini_response\<close> may hand to the decoder, in the order in which it
  tries them: the stripped blocks from the last to the first, the whole stripped text, and
  the span from the first \<open>{\<close> to the last \<open>}\<close> when there is one.
\<close>

definition decode_attempts :: "ustr \<Rightarrow> ustr list" where
  "decode_attempts response_text =
     (let text = strip response_text;
          start = find_char text 123;
          end = rfind_char text 125 + 1
      in map strip (rev (findall_fence text)) @ [text]
         @ (if start \<ge> 0 \<and> end > start then [py_slice text start end] else []))"

section \<open>classify\_email\<close>

text \<open>
  The call \<open>client.models.generate_content\<close> of lines 309-317 and the read of
  \<open>response.text\<close> of line 318: the backend answers, and the text of the answer is a \<open>str\<close>
  or \<open>None\<close> (an answer without a text part), or an exception is raised, of which the code
  reads the text \<open>str(e)\<close>. The backend is a function of the model name and the prompt.
\<close>

datatype backend_outcome = Reply "ustr option" | Raises ustr

type_synonym backend = "ustr \<Rightarrow> ustr \<Rightarrow> backend_outcome"

text \<open>
  Lines 332-341: \<open>parsed.get(key, default)\<close> for the ten keys. Only a dict has \<open>get\<close>; on
  any other value the first of these calls raises \<open>AttributeError\<close>.
\<close>

definition copy_fields ::
  "ClassificationResult \<Rightarrow> (ustr \<times> pyval) list \<Rightarrow> ClassificationResult" where
  "copy_fields result parsed =
     result
       \<lparr> category := dict_get parsed (u ''category'') (PStr default_category),
         category_description := dict_get parsed (u ''category_description'') (PStr []),
         urgency := dict_get parsed (u ''urgency'') (PStr default_urgency),
         urgency_reason := dict_get parsed (u ''urgency_reason'') (PStr []),
         summary := dict_get parsed (u ''summary'') (PStr []),
         key_points := dict_get parsed (u ''key_points'') (PList []),
         recommended_department := dict_get parsed (u ''recommended_department'') (PStr []),
         recommended_lab := dict_get parsed (u ''recommended_lab'') (PStr []),
         recommended_team := dict_get parsed (u ''recommended_team'') (PStr []),
         suggested_actions := dict_get parsed (u ''suggested_actions'') (PList []) \<rparr>"

text \<open>
  \<open>print(s)\<close> writes \<open>s\<close> and a line break to standard output in the encoding of the
  console, and raises \<open>UnicodeEncodeError\<close> when a character has no encoding there. The
  console is given by the code points it can encode; \<open>can_print\<close> says whether the call
  returns.
\<close>

type_synonym console = "nat \<Rightarrow> bool"

definition can_print :: "console \<Rightarrow> ustr \<Rightarrow> bool" where
  "can_print encodes s = list_all encodes (s @ [10])"

text \<open>
  \<open>classify_email\<close>. \<open>Inr\<close> is the result returned, \<open>Inl\<close> an exception that leaves the
  function. The \<open>try\<close> of lines 308-322 covers the backend call only: the print of line 320
  is in its handler, and lines 325-350 are outside it. A reply whose text is \<open>None\<close> is
  stored in \<open>raw_response\<close> and then raises \<open>AttributeError\<close> at \<open>response_text.strip()\<close>
  (line 265).
\<close>

definition classify_email ::
  "console \<Rightarrow> decoder \<Rightarrow> backend \<Rightarrow> ustr \<Rightarrow> EmailInput \<Rightarrow> researcher_db \<Rightarrow> ustr
     \<Rightarrow> py_error + ClassificationResult" where
  "classify_email encodes loads generate_content model_name em db dept_summary =
     (let result = ClassificationResult_default;
          prompt = build_classification_prompt em dept_summary
      in case generate_content model_name prompt of
           Raises e \<Rightarrow>
             if can_print encodes (backend_failed_message @ e)
             then Inr (result \<lparr> summary := PStr (backend_failed_prefix @ e) \<rparr>)
             else Inl UnicodeEncodeError
         | Reply None \<Rightarrow> Inl AttributeError
         | Reply (Some response_text) \<Rightarrow>
             (let result = result \<lparr> raw_response := PStr response_text \<rparr>
              in case parse_gemini_response loads response_text of
                   Inl err \<Rightarrow> Inl err
                 | Inr parsed \<Rightarrow>
                     if \<not> truthy parsed then
                       (if can_print encodes parse_failed_warning
                           \<and> can_print encodes (debug_prefix @ py_slice response_text 0 500)
                        then Inr (result \<lparr> summary := PStr parse_failed_summary \<rparr>)
                        else Inl UnicodeEncodeError)
                     else
                       (case parsed of
                          PDict kvs \<Rightarrow>
                            (let result = copy_fields result kvs
                             in if db \<noteq> [] then
                                  (case find_matching_researchers db
                                          (recommended_department result)
                                          (recommended_lab result)
                                          (recommended_team result) 5 of
                                     Inl err \<Rightarrow> Inl err
                                   | Inr rs \<Rightarrow>
                                       Inr (result \<lparr> recommended_researchers := PList rs \<rparr>))
                                else Inr result)
                        | _ \<Rightarrow> Inl AttributeError)))"

section \<open>Sample inputs\<close>

text \<open>
  A directory of three records. The first has no position, no email address and no
  verification flag; the second has a department that is contained in the department of
  the other two.
\<close>

definition staff_A1 :: StaffRecord where
  "staff_A1 = \<lparr> info_name = Some (u ''Kim''), info_department = Some (u ''Lab X''),
                info_lab = Some (u ''Formulation''), info_team = Some (u ''T1''),
                info_position = None, info_email = None, info_email_verified = None \<rparr>"

definition staff_B2 :: StaffRecord where
  "staff_B2 = \<lparr> info_name = Some (u ''Lee''), info_department = Some (u ''Lab''),
                info_lab = Some (u ''Analysis''), info_team = Some (u ''T2''),
                info_position = Some (u ''Lead''), info_email = Some (u ''lee@example.com''),
                info_email_verified = Some True \<rparr>"

definition staff_C3 :: StaffRecord where
  "staff_C3 = \<lparr> info_name = Some (u ''Park''), info_department = Some (u ''Lab X''),
                info_lab = Some (u ''Formulation''), info_team = Some (u ''T3''),
                info_position = Some (u ''Staff''), info_email = None,
                info_email_verified = Some False \<rparr>"

definition sample_db :: researcher_db where
  "sample_db = [(u ''A1'', staff_A1), (u ''B2'', staff_B2), (u ''C3'', staff_C3)]"

text \<open>The entry of the first record when only its department matches.\<close>

definition sample_entry :: pyval where
  "sample_entry =
     PDict [(u ''code'', PStr (u ''A1'')), (u ''name'', PStr (u ''Kim'')),
            (u ''department'', PStr (u ''Lab X'')), (u ''lab'', PStr (u ''Formulation'')),
            (u ''team'', PStr (u ''T1'')), (u ''position'', PStr []), (u ''email'', PStr []),
            (u ''email_verified'', PBool False), (u ''match_score'', PInt 3)]"



text \<open>An email and a directory summary.\<close>

definition sample_email :: EmailInput where
  "sample_email = \<lparr> subject = u ''[Urgent] Shipment hold'',
                    body = u ''SPF measured 38 vs labeled 50+'', sender = [], date = [] \<rparr>"

definition sample_summary :: ustr where
  "sample_summary = u ''- Lab X: Formulation''"

text \<open>
  A reply that is a JSON object with two keys, \<open>{"category": "QA", "recommended_department":
  "Lab X"}\<close> (34 is the double quote), and the dict that \<open>json.loads\<close> decodes it to.
\<close>

definition sample_json :: ustr where
  "sample_json = u ''{'' @ [34] @ u ''category'' @ [34] @ u '': '' @ [34] @ u ''QA'' @ [34] @ u '', ''
                 @ [34] @ u ''recommended_department'' @ [34] @ u '': '' @ [34] @ u ''Lab X'' @ [34]
                 @ u ''}''"

definition sample_parsed :: "(ustr \<times> pyval) list" where
  "sample_parsed = [(u ''category'', PStr (u ''QA'')),
                    (u ''recommended_department'', PStr (u ''Lab X''))]"

text \<open>A reply of a thousand opening brackets (code point 91), and nothing else.\<close>

definition deep_text :: ustr where
  "deep_text = replicate 1000 91"

text \<open>
  A decoder that agrees with \<open>json.loads\<close> on every text the sample runs below hand to it:
  it decodes the sample object and the array \<open>[1]\<close>, it raises \<open>RecursionError\<close> on the
  thousand brackets, and every other text of those runs is not JSON.
\<close>

definition sample_loads :: decoder where
  "sample_loads s =
     (if s = sample_json then Inr (PDict sample_parsed)
      else if s = u ''[1]'' then Inr (PList [PInt 1])
      else if s = deep_text then Inl RecursionError
      else Inl JSONDecodeError)"


text \<open>A reply without any JSON in it; its only braces enclose a word.\<close>

definition garbage_text :: ustr where
  "garbage_text = u ''Sorry, I cannot classify {this} email.''"


text \<open>A console in UTF-8: every code point but the surrogates has an encoding.\<close>

definition utf8_console :: console where
  "utf8_console c \<longleftrightarrow> \<not> (55296 \<le> c \<and> c \<le> 57343)"

text \<open>A backend that answers every call with the same text.\<close>

definition reply_with :: "ustr \<Rightarrow> backend" where
  "reply_with response_text = (\<lambda>model_name prompt. Reply (Some response_text))"

text \<open>The entry of the third record when only its department matches.\<close>

definition sample_entry_C3 :: pyval where
  "sample_entry_C3 =
     PDict [(u ''code'', PStr (u ''C3'')), (u ''name'', PStr (u ''Park'')),
            (u ''department'', PStr (u ''Lab X'')), (u ''lab'', PStr (u ''Formulation'')),
            (u ''team'', PStr (u ''T3'')), (u ''position'', PStr (u ''Staff'')),
            (u ''email'', PStr []), (u ''email_verified'', PBool False),
            (u ''match_score'', PInt 3)]"

section \<open>The scoring rule as the specification words it\<close>

text \<open>
  The specification counts a field as matching when the guess is not empty and one of
  the two texts contains the other (guess in record, or record in guess), and adds 3, 2
  and 1 for department, lab and team.
\<close>

definition claimed_match :: "ustr \<Rightarrow> ustr \<Rightarrow> bool" where
  "claimed_match guess r \<longleftrightarrow> guess \<noteq> [] \<and> r \<noteq> [] \<and> (sublist guess r \<or> sublist r guess)"

definition claimed_score :: "StaffRecord \<Rightarrow> ustr \<Rightarrow> ustr \<Rightarrow> ustr \<Rightarrow> int" where
  "claimed_score info d l t =
     (if claimed_match d (get_or (info_department info) []) then 3 else 0)
     + (if claimed_match l (get_or (info_lab info) []) then 2 else 0)
     + (if claimed_match t (get_or (info_team info) []) then 1 else 0)"

section \<open>Properties of find\_matching\_researchers\<close>

lemma score_record_range:
  "score_record info department lab team = Inr s \<Longrightarrow> 0 \<le> s \<and> s \<le> 6"
  by (auto simp: score_record_def Let_def split: sum.splits if_splits)

lemma score_record_text:
  "score_record info (PStr d) (PStr l) (PStr t) =
     Inr ((if d \<noteq> [] \<and> get_or (info_department info) [] \<noteq> []
              \<and> sublist d (get_or (info_department info) []) then 3 else 0)
        + (if l \<noteq> [] \<and> get_or (info_lab info) [] \<noteq> []
              \<and> sublist l (get_or (info_lab info) []) then 2 else 0)
        + (if t \<noteq> [] \<and> get_or (info_team info) [] \<noteq> []
              \<and> sublist t (get_or (info_team info) []) then 1 else 0))"
  by (simp add: score_record_def field_match_def Let_def)

lemma match_score_of_candidate:
  "make_candidate code info score = Inr e \<Longrightarrow> match_score_of e = score"
  by (auto simp: make_candidate_def match_score_of_def u_def split: option.splits)

lemma collect_candidates_entries:
  "collect_candidates db department lab team = Inr cs \<Longrightarrow> e \<in> set cs \<Longrightarrow>
     \<exists>code info score. (code, info) \<in> set db \<and> score_record info department lab team = Inr score
        \<and> 0 < score \<and> make_candidate code info score = Inr e"
proof (induction db department lab team arbitrary: cs rule: collect_candidates.induct)
  case (1 department lab team)
  then show ?case by simp
next
  case (2 code info rest department lab team)
  then show ?case
    by (fastforce split: sum.splits if_splits)
qed


lemma collect_candidates_returns:
  "\<forall>(code, info) \<in> set db. info_name info \<noteq> None \<Longrightarrow>
     \<exists>cs. collect_candidates db (PStr d) (PStr l) (PStr t) = Inr cs"
proof (induction db)
  case Nil
  then show ?case by simp
next
  case (Cons p db)
  obtain code info where p: "p = (code, info)" by (cases p)
  from Cons obtain cs where cs: "collect_candidates db (PStr d) (PStr l) (PStr t) = Inr cs"
    by auto
  from Cons.prems p obtain n where n: "info_name info = Some n" by auto
  obtain s where s: "score_record info (PStr d) (PStr l) (PStr t) = Inr s"
    using score_record_text by blast
  show ?case
    using p cs n s by (simp add: make_candidate_def)
qed

lemma set_py_slice: "set (py_slice xs i j) \<subseteq> set xs"
  unfolding py_slice_def Let_def
  by (meson order_trans set_drop_subset set_take_subset)






text \<open>
  When every guess is a text and every record of the directory has a name, the function
  returns a list: no exception leaves it.
\<close>

lemma find_matching_researchers_returns:
  "\<forall>(code, info) \<in> set db. info_name info \<noteq> None \<Longrightarrow>
     \<exists>rs. find_matching_researchers db (PStr d) (PStr l) (PStr t) limit = Inr rs"
  using collect_candidates_returns[of db d l t]
  by (auto simp: find_matching_researchers_def)

text \<open>
  C3, as the code has it. For text guesses the score of a record is 3 when the guessed
  department is not empty and is contained in the record's (non-empty) department, plus 2
  for the lab and 1 for the team in the same way; containment is tested in one direction
  only, guess within record. Every entry of the returned list is the entry of a record of
  the directory whose score is positive, and carries that score.
\<close>

theorem find_matching_researchers_scoring:
  "score_record info (PStr d) (PStr l) (PStr t) =
     Inr ((if d \<noteq> [] \<and> get_or (info_department info) [] \<noteq> []
              \<and> sublist d (get_or (info_department info) []) then 3 else 0)
        + (if l \<noteq> [] \<and> get_or (info_lab info) [] \<noteq> []
              \<and> sublist l (get_or (info_lab info) []) then 2 else 0)
        + (if t \<noteq> [] \<and> get_or (info_team info) [] \<noteq> []
              \<and> sublist t (get_or (info_team info) []) then 1 else 0))
   \<and> (\<forall>db limit rs e.
         find_matching_researchers db (PStr d) (PStr l) (PStr t) limit = Inr rs \<longrightarrow> e \<in> set rs \<longrightarrow>
         (\<exists>code rec. (code, rec) \<in> set db \<and> 0 < match_score_of e
              \<and> score_record rec (PStr d) (PStr l) (PStr t) = Inr (match_score_of e)
              \<and> make_candidate code rec (match_score_of e) = Inr e))"
proof (intro conjI allI impI)
  show "score_record info (PStr d) (PStr l) (PStr t) =
     Inr ((if d \<noteq> [] \<and> get_or (info_department info) [] \<noteq> []
              \<and> sublist d (get_or (info_department info) []) then 3 else 0)
        + (if l \<noteq> [] \<and> get_or (info_lab info) [] \<noteq> []
              \<and> sublist l (get_or (info_lab info) []) then 2 else 0)
        + (if t \<noteq> [] \<and> get_or (info_team info) [] \<noteq> []
              \<and> sublist t (get_or (info_team info) []) then 1 else 0))"
    by (rule score_record_text)
next
  fix db limit rs e
  assume run: "find_matching_researchers db (PStr d) (PStr l) (PStr t) limit = Inr rs"
    and mem: "e \<in> set rs"
  from run obtain cs where
    cs: "collect_candidates db (PStr d) (PStr l) (PStr t) = Inr cs" and
    rs: "rs = py_slice (sort_reverse match_score_of cs) 0 limit"
    by (auto simp: find_matching_researchers_def split: sum.splits)
  have "set rs \<subseteq> set cs"
    using set_py_slice[of "sort_reverse match_score_of cs" 0 limit] rs
    by (simp add: sort_reverse_def)
  with mem have "e \<in> set cs" by blast
  from collect_candidates_entries[OF cs this] obtain code rec score where
    m: "(code, rec) \<in> set db" and
    s: "score_record rec (PStr d) (PStr l) (PStr t) = Inr score" and
    p: "0 < score" and
    c: "make_candidate code rec score = Inr e"
    by blast
  from match_score_of_candidate[OF c] have "match_score_of e = score" .
  with m s p c show "\<exists>code rec. (code, rec) \<in> set db \<and> 0 < match_score_of e
              \<and> score_record rec (PStr d) (PStr l) (PStr t) = Inr (match_score_of e)
              \<and> make_candidate code rec (match_score_of e) = Inr e"
    by blast
qed

theorem find_matching_researchers_scoring_witness:
  "score_record staff_B2 (PStr (u ''Lab'')) (PStr (u ''Formulation'')) (PStr (u ''T2'')) = Inr 4
   \<and> (\<exists>code rec. (code, rec) \<in> set sample_db \<and> 0 < match_score_of sample_entry
          \<and> score_record rec (PStr (u ''Lab X'')) (PStr []) (PStr []) = Inr (match_score_of sample_entry)
          \<and> make_candidate code rec (match_score_of sample_entry) = Inr sample_entry)"
proof -
  have run: "find_matching_researchers sample_db (PStr (u ''Lab X'')) (PStr []) (PStr []) 1
               = Inr [sample_entry]"
    by code_simp
  have mem: "sample_entry \<in> set [sample_entry]" by simp
  have a: "score_record staff_B2 (PStr (u ''Lab'')) (PStr (u ''Formulation'')) (PStr (u ''T2'')) = Inr 4"
    using find_matching_researchers_scoring[of staff_B2 "u ''Lab''" "u ''Formulation''" "u ''T2''"]
    by (simp add: staff_B2_def get_or_def u_def sublist_code)
  have b: "\<exists>code rec. (code, rec) \<in> set sample_db \<and> 0 < match_score_of sample_entry
          \<and> score_record rec (PStr (u ''Lab X'')) (PStr []) (PStr []) = Inr (match_score_of sample_entry)
          \<and> make_candidate code rec (match_score_of sample_entry) = Inr sample_entry"
    using find_matching_researchers_scoring[of staff_B2 "u ''Lab X''" "[]" "[]"] run mem
    by blast
  from a b show ?thesis by (rule conjI)
qed

text \<open>
  C3 as stated also counts the record's text being contained in the guess. The record
  \<open>B2\<close> has department \<open>Lab\<close>; for the guess \<open>Lab X\<close> the stated rule gives it 3, while the
  code gives it 0 and leaves it out of the result.
\<close>

theorem claimed_score_counterexample:
  "score_record staff_B2 (PStr (u ''Lab X'')) (PStr []) (PStr []) = Inr 0
   \<and> claimed_score staff_B2 (u ''Lab X'') [] [] = 3
   \<and> find_matching_researchers [(u ''B2'', staff_B2)] (PStr (u ''Lab X'')) (PStr []) (PStr []) 5 = Inr []"
  by code_simp




text \<open>
  C10. Every entry of a returned list is a dict with exactly the nine keys \<open>code\<close>, \<open>name\<close>,
  \<open>department\<close>, \<open>lab\<close>, \<open>team\<close>, \<open>position\<close>, \<open>email\<close>, \<open>email_verified\<close> and \<open>match_score\<close>, made
  from a record of the directory; the score is between 1 and 6; a text field that the
  record lacks is the empty text and a lacking \<open>email_verified\<close> is \<open>False\<close>.
\<close>

theorem find_matching_researchers_entries:
  assumes "find_matching_researchers db department lab team limit = Inr rs"
    and "e \<in> set rs"
  shows "\<exists>code info name score.
           (code, info) \<in> set db \<and> info_name info = Some name \<and> 1 \<le> score \<and> score \<le> 6 \<and>
           e = PDict
                 [(u ''code'', PStr code),
                  (u ''name'', PStr name),
                  (u ''department'', PStr (case info_department info of None \<Rightarrow> [] | Some x \<Rightarrow> x)),
                  (u ''lab'', PStr (case info_lab info of None \<Rightarrow> [] | Some x \<Rightarrow> x)),
                  (u ''team'', PStr (case info_team info of None \<Rightarrow> [] | Some x \<Rightarrow> x)),
                  (u ''position'', PStr (case info_position info of None \<Rightarrow> [] | Some x \<Rightarrow> x)),
                  (u ''email'', PStr (case info_email info of None \<Rightarrow> [] | Some x \<Rightarrow> x)),
                  (u ''email_verified'',
                     PBool (case info_email_verified info of None \<Rightarrow> False | Some b \<Rightarrow> b)),
                  (u ''match_score'', PInt score)]"
proof -
  from assms(1) obtain cs where
    cs: "collect_candidates db department lab team = Inr cs" and
    rs: "rs = py_slice (sort_reverse match_score_of cs) 0 limit"
    by (auto simp: find_matching_researchers_def split: sum.splits)
  have "set rs \<subseteq> set cs"
    using set_py_slice[of "sort_reverse match_score_of cs" 0 limit] rs
    by (simp add: sort_reverse_def)
  with assms(2) have "e \<in> set cs" by blast
  from collect_candidates_entries[OF cs this] obtain code info score where
    m: "(code, info) \<in> set db" and
    s: "score_record info department lab team = Inr score" and
    p: "0 < score" and
    c: "make_candidate code info score = Inr e"
    by blast
  from score_record_range[OF s] p have r: "1 \<le> score \<and> score \<le> 6" by simp
  from c obtain name where n: "info_name info = Some name"
    by (auto simp: make_candidate_def split: option.splits)
  from c n have "e = PDict
                 [(u ''code'', PStr code),
                  (u ''name'', PStr name),
                  (u ''department'', PStr (case info_department info of None \<Rightarrow> [] | Some x \<Rightarrow> x)),
                  (u ''lab'', PStr (case info_lab info of None \<Rightarrow> [] | Some x \<Rightarrow> x)),
                  (u ''team'', PStr (case info_team info of None \<Rightarrow> [] | Some x \<Rightarrow> x)),
                  (u ''position'', PStr (case info_position info of None \<Rightarrow> [] | Some x \<Rightarrow> x)),
                  (u ''email'', PStr (case info_email info of None \<Rightarrow> [] | Some x \<Rightarrow> x)),
                  (u ''email_verified'',
                     PBool (case info_email_verified info of None \<Rightarrow> False | Some b \<Rightarrow> b)),
                  (u ''match_score'', PInt score)]"
    by (simp add: make_candidate_def get_or_def)
  with m n r show ?thesis by blast
qed

theorem find_matching_researchers_entries_witness:
  "\<exists>code info name score.
     (code, info) \<in> set sample_db \<and> info_name info = Some name \<and> 1 \<le> score \<and> score \<le> 6 \<and>
     sample_entry = PDict
                 [(u ''code'', PStr code),
                  (u ''name'', PStr name),
                  (u ''department'', PStr (case info_department info of None \<Rightarrow> [] | Some x \<Rightarrow> x)),
                  (u ''lab'', PStr (case info_lab info of None \<Rightarrow> [] | Some x \<Rightarrow> x)),
                  (u ''team'', PStr (case info_team info of None \<Rightarrow> [] | Some x \<Rightarrow> x)),
                  (u ''position'', PStr (case info_position info of None \<Rightarrow> [] | Some x \<Rightarrow> x)),
                  (u ''email'', PStr (case info_email info of None \<Rightarrow> [] | Some x \<Rightarrow> x)),
                  (u ''email_verified'',
                     PBool (case info_email_verified info of None \<Rightarrow> False | Some b \<Rightarrow> b)),
                  (u ''match_score'', PInt score)]"
proof -
  have run: "find_matching_researchers sample_db (PStr (u ''Lab X'')) (PStr []) (PStr []) 1
               = Inr [sample_entry]"
    by code_simp
  have mem: "sample_entry \<in> set [sample_entry]" by simp
  from find_matching_researchers_entries[OF run mem] show ?thesis .
qed

section \<open>Properties of configure\_gemini\<close>





section \<open>Properties of parse\_gemini\_response\<close>


lemma first_decoded_none:
  "\<forall>b \<in> set blocks. loads (strip b) = Inl JSONDecodeError \<Longrightarrow>
     first_decoded loads blocks = Inr None"
  by (induction blocks) auto

lemma first_decoded_value:
  "first_decoded loads blocks = Inr (Some v) \<Longrightarrow> \<exists>b \<in> set blocks. loads (strip b) = Inr v"
  by (induction blocks) (auto split: sum.splits if_splits)

lemma first_decoded_raise:
  "first_decoded loads blocks = Inl e \<Longrightarrow>
     e \<noteq> JSONDecodeError \<and> (\<exists>b \<in> set blocks. loads (strip b) = Inl e)"
  by (induction blocks) (auto split: sum.splits if_splits)

text \<open>
  When every attempt fails with \<open>json.JSONDecodeError\<close>, the empty dict is returned.
\<close>

lemma parse_gemini_response_all_fail:
  assumes "\<forall>s \<in> set (decode_attempts response_text). loads s = Inl JSONDecodeError"
  shows "parse_gemini_response loads response_text = Inr (PDict [])"
proof -
  have a: "first_decoded loads (rev (findall_fence (strip response_text))) = Inr None"
    using assms by (intro first_decoded_none) (auto simp: decode_attempts_def Let_def)
  have b: "loads (strip response_text) = Inl JSONDecodeError"
    using assms by (simp add: decode_attempts_def Let_def)
  show ?thesis
    using a b assms
    by (auto simp: parse_gemini_response_def decode_attempts_def Let_def split: sum.splits)
qed

text \<open>
  The three ways in which the function ends: with the empty dict, with the value that
  one of its attempts decoded, or with an exception other than \<open>json.JSONDecodeError\<close>
  that one of its attempts raised.
\<close>

lemma parse_gemini_response_result:
  "parse_gemini_response loads response_text = Inr (PDict [])
   \<or> (\<exists>s \<in> set (decode_attempts response_text). \<exists>v.
         loads s = Inr v \<and> parse_gemini_response loads response_text = Inr v)
   \<or> (\<exists>s \<in> set (decode_attempts response_text). \<exists>e.
         e \<noteq> JSONDecodeError \<and> loads s = Inl e
         \<and> parse_gemini_response loads response_text = Inl e)"
proof (cases "first_decoded loads (rev (findall_fence (strip response_text)))")
  case (Inl e)
  from first_decoded_raise[OF this] Inl show ?thesis
    by (auto simp: parse_gemini_response_def decode_attempts_def Let_def)
next
  case (Inr r)
  show ?thesis
  proof (cases r)
    case (Some v)
    with Inr have "first_decoded loads (rev (findall_fence (strip response_text))) = Inr (Some v)"
      by simp
    from first_decoded_value[OF this] this show ?thesis
      by (auto simp: parse_gemini_response_def decode_attempts_def Let_def)
  next
    case None
    with Inr have n: "first_decoded loads (rev (findall_fence (strip response_text))) = Inr None"
      by simp
    show ?thesis
    proof (cases "loads (strip response_text)")
      case v: (Inr v)
      with n show ?thesis
        by (auto simp: parse_gemini_response_def decode_attempts_def Let_def)
    next
      case e: (Inl e)
      show ?thesis
      proof (cases "e = JSONDecodeError")
        case False
        with n e show ?thesis
          by (auto simp: parse_gemini_response_def decode_attempts_def Let_def)
      next
        case True
        with n e show ?thesis
          by (auto simp: parse_gemini_response_def decode_attempts_def Let_def
              split: sum.splits)
      qed
    qed
  qed
qed

lemma strip_sample: "strip (u ''[1]'') = u ''[1]''"
  by (simp add: strip_def u_def isspace_def)

lemma findall_sample: "findall_fence (u ''[1]'') = []"
  by (simp add: u_def match_fence_def fence_def)

text \<open>
  A text without a fenced block that the decoder does not reject as malformed JSON: the
  function returns what the decoder returns, or lets through what it raises.
\<close>

lemma parse_gemini_response_direct:
  "findall_fence (strip response_text) = [] \<Longrightarrow> loads (strip response_text) = Inr v \<Longrightarrow>
     parse_gemini_response loads response_text = Inr v"
  by (simp add: parse_gemini_response_def)

lemma parse_gemini_response_direct_raise:
  "findall_fence (strip response_text) = [] \<Longrightarrow> loads (strip response_text) = Inl e \<Longrightarrow>
     e \<noteq> JSONDecodeError \<Longrightarrow> parse_gemini_response loads response_text = Inl e"
  by (simp add: parse_gemini_response_def)

lemma fence_eq: "fence = [96, 96, 96]"
  by (simp add: fence_def u_def)



lemma match_fence_no_backtick:
  "c \<noteq> 96 \<Longrightarrow> match_fence (c # cs) = None"
  by (simp add: match_fence_def fence_eq)

lemma findall_fence_skip:
  "96 \<notin> set pre \<Longrightarrow> findall_fence (pre @ s) = findall_fence s"
  by (induction pre) (auto simp: match_fence_no_backtick)

lemma findall_fence_none:
  "96 \<notin> set post \<Longrightarrow> findall_fence post = []"
  using findall_fence_skip[of post "[]"] by simp








lemma strip_deep: "strip deep_text = deep_text"
proof -
  have "\<not> isspace 91" by (simp add: isspace_def)
  then have "dropWhile isspace (replicate 1000 91) = replicate 1000 91"
    by (simp add: dropWhile_replicate)
  then show ?thesis by (simp add: strip_def deep_text_def)
qed

lemma findall_deep: "findall_fence deep_text = []"
  by (rule findall_fence_none) (simp add: deep_text_def)

lemma deep_text_neq:
  "length s \<noteq> 1000 \<Longrightarrow> s \<noteq> deep_text"
  "length s \<noteq> 1000 \<Longrightarrow> deep_text \<noteq> s"
  by (auto simp: deep_text_def)








text \<open>
  C2, at an input where the code departs from it. The reply \<open>[1]\<close> has no fenced block and
  is valid JSON, so the function returns the list that \<open>json.loads\<close> decodes it to: the
  value returned is not a mapping, although the function is declared to return a \<open>dict\<close>.
\<close>

theorem parse_gemini_response_decoded_list:
  assumes "loads (u ''[1]'') = Inr (PList [PInt 1])"
  shows "parse_gemini_response loads (u ''[1]'') = Inr (PList [PInt 1])"
  using assms parse_gemini_response_direct[of "u ''[1]''" loads "PList [PInt 1]"]
  by (simp add: strip_sample findall_sample)

theorem parse_gemini_response_decoded_list_witness:
  "parse_gemini_response sample_loads (u ''[1]'') = Inr (PList [PInt 1])"
proof -
  have "sample_loads (u ''[1]'') = Inr (PList [PInt 1])"
    by (simp add: sample_loads_def sample_json_def u_def)
  then show ?thesis by (rule parse_gemini_response_decoded_list[of sample_loads])
qed

section \<open>Properties of classify\_email\<close>

text \<open>
  The two early returns give a result with every field of its declared type, when the
  console can show the messages printed on the way: after a failed backend call, and
  after a reply on which every decode attempt failed with \<open>json.JSONDecodeError\<close>. In the
  second case the summary is the diagnostic text, which is not empty, and the category is
  the empty text.
\<close>

lemma classify_email_backend_failed:
  assumes "generate_content model_name (build_classification_prompt em dept_summary) = Raises e"
    and "can_print encodes (backend_failed_message @ e)"
  shows "classify_email encodes loads generate_content model_name em db dept_summary
           = Inr (ClassificationResult_default \<lparr> summary := PStr (backend_failed_prefix @ e) \<rparr>)"
    and "well_formed (ClassificationResult_default \<lparr> summary := PStr (backend_failed_prefix @ e) \<rparr>)"
  using assms
  by (simp_all add: classify_email_def Let_def well_formed_def ClassificationResult_default_def
      is_text_def is_list_of_def)

lemma classify_email_parse_failed:
  assumes "\<forall>s \<in> set (decode_attempts response_text). loads s = Inl JSONDecodeError"
    and "generate_content model_name (build_classification_prompt em dept_summary)
           = Reply (Some response_text)"
    and "can_print encodes parse_failed_warning"
    and "can_print encodes (debug_prefix @ py_slice response_text 0 500)"
  shows "classify_email encodes loads generate_content model_name em db dept_summary
           = Inr (ClassificationResult_default
                    \<lparr> raw_response := PStr response_text,
                      summary := PStr parse_failed_summary \<rparr>)"
    and "parse_failed_summary \<noteq> []"
    and "category (ClassificationResult_default
                    \<lparr> raw_response := PStr response_text,
                      summary := PStr parse_failed_summary \<rparr>) = PStr []"
    and "well_formed (ClassificationResult_default
                    \<lparr> raw_response := PStr response_text,
                      summary := PStr parse_failed_summary \<rparr>)"
proof -
  have p: "parse_gemini_response loads response_text = Inr (PDict [])"
    using assms(1) by (rule parse_gemini_response_all_fail)
  show "classify_email encodes loads generate_content model_name em db dept_summary
           = Inr (ClassificationResult_default
                    \<lparr> raw_response := PStr response_text,
                      summary := PStr parse_failed_summary \<rparr>)"
    using assms(2-4) p by (simp add: classify_email_def Let_def)
  show "parse_failed_summary \<noteq> []"
    by (simp add: parse_failed_summary_def)
  show "category (ClassificationResult_default
                    \<lparr> raw_response := PStr response_text,
                      summary := PStr parse_failed_summary \<rparr>) = PStr []"
    by (simp add: ClassificationResult_default_def)
  show "well_formed (ClassificationResult_default
                    \<lparr> raw_response := PStr response_text,
                      summary := PStr parse_failed_summary \<rparr>)"
    by (simp add: well_formed_def ClassificationResult_default_def is_text_def is_list_of_def)
qed

text \<open>
  The same reply on a console that cannot show its first 500 characters: the print of
  line 328 raises before the result is returned.
\<close>

lemma classify_email_parse_failed_unprintable:
  assumes "\<forall>s \<in> set (decode_attempts response_text). loads s = Inl JSONDecodeError"
    and "generate_content model_name (build_classification_prompt em dept_summary)
           = Reply (Some response_text)"
    and "\<not> can_print encodes (debug_prefix @ py_slice response_text 0 500)"
  shows "classify_email encodes loads generate_content model_name em db dept_summary
           = Inl UnicodeEncodeError"
proof -
  have p: "parse_gemini_response loads response_text = Inr (PDict [])"
    using assms(1) by (rule parse_gemini_response_all_fail)
  show ?thesis
    using assms(2,3) p by (simp add: classify_email_def Let_def)
qed

text \<open>
  Both cases on the UTF-8 console: the sample reply without JSON gives the result with
  the diagnostic summary, and a reply that is one lone surrogate (code point 55296)
  raises \<open>UnicodeEncodeError\<close>.
\<close>

lemma garbage_attempts:
  "decode_attempts garbage_text = [garbage_text, u ''{this}'']"
  by (simp add: decode_attempts_def garbage_text_def u_def strip_def isspace_def
      match_fence_def fence_def find_char_def rfind_char_def py_slice_def norm_index_def)

lemma classify_email_parse_failed_example:
  "classify_email utf8_console sample_loads (reply_with garbage_text) (u ''gemini-2.0-flash'')
     sample_email sample_db sample_summary
   = Inr (ClassificationResult_default
            \<lparr> raw_response := PStr garbage_text, summary := PStr parse_failed_summary \<rparr>)"
proof -
  have a: "\<forall>s \<in> set (decode_attempts garbage_text). sample_loads s = Inl JSONDecodeError"
    unfolding garbage_attempts
    by (simp add: sample_loads_def sample_json_def garbage_text_def deep_text_neq u_def)
  have b: "reply_with garbage_text (u ''gemini-2.0-flash'')
             (build_classification_prompt sample_email sample_summary)
           = Reply (Some garbage_text)"
    by (simp add: reply_with_def)
  have c: "can_print utf8_console parse_failed_warning"
    by (simp add: can_print_def utf8_console_def parse_failed_warning_def)
  have d: "can_print utf8_console (debug_prefix @ py_slice garbage_text 0 500)"
    by (simp add: can_print_def utf8_console_def debug_prefix_def garbage_text_def u_def
        py_slice_def norm_index_def)
  from a b c d show ?thesis
    by (rule classify_email_parse_failed(1)[of garbage_text sample_loads
          "reply_with garbage_text"])
qed

lemma classify_email_surrogate_example:
  "classify_email utf8_console sample_loads (reply_with [55296]) (u ''gemini-2.0-flash'')
     sample_email sample_db sample_summary
   = Inl UnicodeEncodeError"
proof -
  have a: "\<forall>s \<in> set (decode_attempts [55296]). sample_loads s = Inl JSONDecodeError"
    by (simp add: decode_attempts_def strip_def isspace_def match_fence_def fence_def u_def
        find_char_def rfind_char_def sample_loads_def sample_json_def deep_text_neq)
  have b: "reply_with [55296] (u ''gemini-2.0-flash'')
             (build_classification_prompt sample_email sample_summary)
           = Reply (Some [55296])"
    by (simp add: reply_with_def)
  have c: "\<not> can_print utf8_console (debug_prefix @ py_slice [55296] 0 500)"
    by (simp add: can_print_def utf8_console_def py_slice_def norm_index_def)
  from a b c show ?thesis
    by (rule classify_email_parse_failed_unprintable[of "[55296]" sample_loads
          "reply_with [55296]"])
qed

text \<open>A reply without a text raises \<open>AttributeError\<close>.\<close>

lemma classify_email_reply_without_text:
  assumes "generate_content model_name (build_classification_prompt em dept_summary) = Reply None"
  shows "classify_email encodes loads generate_content model_name em db dept_summary
           = Inl AttributeError"
  using assms by (simp add: classify_email_def Let_def)

text \<open>
  A reply that decodes to a dict is copied without a check of its values. A number under
  \<open>category\<close> becomes the category of the result, and a number under
  \<open>recommended_department\<close> makes \<open>find_matching_researchers\<close> raise \<open>TypeError\<close> on the first
  record with a department.
\<close>

lemma classify_email_number_field:
  assumes "generate_content model_name (build_classification_prompt em dept_summary)
             = Reply (Some response_text)"
    and "parse_gemini_response loads response_text = Inr (PDict [(u ''category'', PInt 5)])"
  shows "\<exists>r. classify_email encodes loads generate_content model_name em [] dept_summary = Inr r
             \<and> category r = PInt 5 \<and> \<not> well_formed r"
  using assms
  by (simp add: classify_email_def Let_def copy_fields_def dict_get_def well_formed_def
      is_text_def)

lemma classify_email_number_guess:
  assumes "generate_content model_name (build_classification_prompt em dept_summary)
             = Reply (Some response_text)"
    and "parse_gemini_response loads response_text
           = Inr (PDict [(u ''recommended_department'', PInt 5)])"
  shows "classify_email encodes loads generate_content model_name em sample_db dept_summary
           = Inl TypeError"
  using assms
  by (simp add: classify_email_def Let_def copy_fields_def dict_get_def u_def sample_db_def
      staff_A1_def find_matching_researchers_def score_record_def field_match_def get_or_def)

text \<open>
  C1, at an input where the code departs from it. On the reply \<open>[1]\<close> the parsed value is a
  non-empty list: it passes the test \<open>not parsed\<close>, and \<open>parsed.get\<close> of line 332 raises
  \<open>AttributeError\<close>, which leaves \<open>classify_email\<close>. No result is returned.
\<close>

theorem classify_email_list_reply_raises:
  assumes "loads (u ''[1]'') = Inr (PList [PInt 1])"
    and "generate_content model_name (build_classification_prompt em dept_summary)
           = Reply (Some (u ''[1]''))"
  shows "classify_email encodes loads generate_content model_name em db dept_summary
           = Inl AttributeError"
  using assms parse_gemini_response_direct[of "u ''[1]''" loads "PList [PInt 1]"]
  by (simp add: classify_email_def Let_def strip_sample findall_sample)

theorem classify_email_list_reply_raises_witness:
  "classify_email utf8_console sample_loads (reply_with (u ''[1]'')) (u ''gemini-2.0-flash'')
     sample_email sample_db sample_summary = Inl AttributeError"
proof -
  have a: "sample_loads (u ''[1]'') = Inr (PList [PInt 1])"
    by (simp add: sample_loads_def sample_json_def u_def)
  have b: "reply_with (u ''[1]'') (u ''gemini-2.0-flash'')
             (build_classification_prompt sample_email sample_summary) = Reply (Some (u ''[1]''))"
    by (simp add: reply_with_def)
  from a b show ?thesis
    by (rule classify_email_list_reply_raises[of sample_loads "reply_with (u ''[1]'')"])
qed

text \<open>
  C7, at an input where the code departs from it. A reply of a thousand opening brackets
  is not JSON, and \<open>json.loads\<close> raises \<open>RecursionError\<close> on it, not \<open>json.JSONDecodeError\<close>.
  The reply has no fenced block, so the first decode attempt is the one of line 279, whose
  \<open>except\<close> does not catch the exception: it leaves \<open>parse_gemini_response\<close>, and then
  \<open>classify_email\<close>, whose call of the parser at line 325 is outside the \<open>try\<close>. No empty
  mapping and no result is returned.
\<close>

theorem classify_email_deep_reply_raises:
  assumes "loads deep_text = Inl RecursionError"
    and "generate_content model_name (build_classification_prompt em dept_summary)
           = Reply (Some deep_text)"
  shows "parse_gemini_response loads deep_text = Inl RecursionError
         \<and> classify_email encodes loads generate_content model_name em db dept_summary
             = Inl RecursionError"
proof -
  have p: "parse_gemini_response loads deep_text = Inl RecursionError"
    using assms(1) parse_gemini_response_direct_raise[of deep_text loads RecursionError]
    by (simp add: strip_deep findall_deep)
  have c: "classify_email encodes loads generate_content model_name em db dept_summary
             = Inl RecursionError"
    using assms(2) p by (simp add: classify_email_def Let_def)
  from p c show ?thesis by (rule conjI)
qed

theorem classify_email_deep_reply_raises_witness:
  "parse_gemini_response sample_loads deep_text = Inl RecursionError
   \<and> classify_email utf8_console sample_loads (reply_with deep_text) (u ''gemini-2.0-flash'')
        sample_email sample_db sample_summary = Inl RecursionError"
proof -
  have n: "deep_text \<noteq> sample_json" "deep_text \<noteq> u ''[1]''"
    by (simp_all add: deep_text_neq sample_json_def u_def)
  have a: "sample_loads deep_text = Inl RecursionError"
    using n by (simp add: sample_loads_def)
  have b: "reply_with deep_text (u ''gemini-2.0-flash'')
             (build_classification_prompt sample_email sample_summary) = Reply (Some deep_text)"
    by (simp add: reply_with_def)
  from a b show ?thesis
    by (rule classify_email_deep_reply_raises[of sample_loads "reply_with deep_text"])
qed

text \<open>
  C6. When the reply parses to a non-empty dict, each of the ten fields is \<open>parsed.get\<close> of
  its key with its default: the last label of \<open>CATEGORIES\<close> for the category, the third
  level of \<open>URGENCY_LEVELS\<close> for the urgency, the empty list for \<open>key_points\<close> and
  \<open>suggested_actions\<close>, the empty text for the others. With an empty directory
  \<open>find_matching_researchers\<close> is not called and \<open>recommended_researchers\<close> keeps its default;
  otherwise it is called with the three guesses and limit 5, and its list, or the
  exception it raises, is the outcome.
\<close>

theorem classify_email_copies_fields:
  assumes "generate_content model_name (build_classification_prompt em dept_summary)
             = Reply (Some response_text)"
    and "parse_gemini_response loads response_text = Inr (PDict kvs)"
    and "kvs \<noteq> []"
  shows "classify_email encodes loads generate_content model_name em db dept_summary =
           (if db = [] then
              Inr \<lparr> category = dict_get kvs (u ''category'') (PStr default_category),
                    category_description = dict_get kvs (u ''category_description'') (PStr []),
                    urgency = dict_get kvs (u ''urgency'') (PStr default_urgency),
                    urgency_reason = dict_get kvs (u ''urgency_reason'') (PStr []),
                    summary = dict_get kvs (u ''summary'') (PStr []),
                    key_points = dict_get kvs (u ''key_points'') (PList []),
                    recommended_department = dict_get kvs (u ''recommended_department'') (PStr []),
                    recommended_lab = dict_get kvs (u ''recommended_lab'') (PStr []),
                    recommended_team = dict_get kvs (u ''recommended_team'') (PStr []),
                    recommended_researchers = PList [],
                    suggested_actions = dict_get kvs (u ''suggested_actions'') (PList []),
                    raw_response = PStr response_text \<rparr>
            else
              (case find_matching_researchers db
                      (dict_get kvs (u ''recommended_department'') (PStr []))
                      (dict_get kvs (u ''recommended_lab'') (PStr []))
                      (dict_get kvs (u ''recommended_team'') (PStr [])) 5 of
                 Inl err \<Rightarrow> Inl err
               | Inr rs \<Rightarrow>
                   Inr \<lparr> category = dict_get kvs (u ''category'') (PStr default_category),
                         category_description = dict_get kvs (u ''category_description'') (PStr []),
                         urgency = dict_get kvs (u ''urgency'') (PStr default_urgency),
                         urgency_reason = dict_get kvs (u ''urgency_reason'') (PStr []),
                         summary = dict_get kvs (u ''summary'') (PStr []),
                         key_points = dict_get kvs (u ''key_points'') (PList []),
                         recommended_department =
                           dict_get kvs (u ''recommended_department'') (PStr []),
                         recommended_lab = dict_get kvs (u ''recommended_lab'') (PStr []),
                         recommended_team = dict_get kvs (u ''recommended_team'') (PStr []),
                         recommended_researchers = PList rs,
                         suggested_actions = dict_get kvs (u ''suggested_actions'') (PList []),
                         raw_response = PStr response_text \<rparr>))
         \<and> default_category = fst (last CATEGORIES)
         \<and> default_urgency = fst (URGENCY_LEVELS ! 2)"
proof -
  have t: "truthy (PDict kvs)" using assms(3) by simp
  have c: "default_category = fst (last CATEGORIES)"
    by (simp add: default_category_def CATEGORIES_def)
  have g: "default_urgency = fst (URGENCY_LEVELS ! 2)"
    by (simp add: default_urgency_def URGENCY_LEVELS_def)
  show ?thesis
    using assms(1,2) t c g
    by (simp add: classify_email_def Let_def copy_fields_def ClassificationResult_default_def
        split: sum.splits)
qed

lemma parse_sample_json:
  "parse_gemini_response sample_loads sample_json = Inr (PDict sample_parsed)"
proof -
  have a: "strip sample_json = sample_json"
    by (simp add: strip_def sample_json_def u_def isspace_def)
  have b: "findall_fence sample_json = []"
    by (simp add: sample_json_def u_def match_fence_def fence_def)
  have c: "sample_loads sample_json = Inr (PDict sample_parsed)"
    by (simp add: sample_loads_def)
  from a b c show ?thesis
    by (simp add: parse_gemini_response_def)
qed

lemma sample_matches:
  "find_matching_researchers sample_db (PStr (u ''Lab X'')) (PStr []) (PStr []) 5
     = Inr [sample_entry, sample_entry_C3]"
  by code_simp

theorem classify_email_copies_fields_witness:
  "classify_email utf8_console sample_loads (reply_with sample_json) (u ''gemini-2.0-flash'') sample_email
     sample_db sample_summary
   = Inr \<lparr> category = PStr (u ''QA''), category_description = PStr [],
           urgency = PStr default_urgency, urgency_reason = PStr [], summary = PStr [],
           key_points = PList [], recommended_department = PStr (u ''Lab X''),
           recommended_lab = PStr [], recommended_team = PStr [],
           recommended_researchers = PList [sample_entry, sample_entry_C3],
           suggested_actions = PList [], raw_response = PStr sample_json \<rparr>
   \<and> classify_email utf8_console sample_loads (reply_with sample_json) (u ''gemini-2.0-flash'') sample_email
       [] sample_summary
   = Inr \<lparr> category = PStr (u ''QA''), category_description = PStr [],
           urgency = PStr default_urgency, urgency_reason = PStr [], summary = PStr [],
           key_points = PList [], recommended_department = PStr (u ''Lab X''),
           recommended_lab = PStr [], recommended_team = PStr [],
           recommended_researchers = PList [],
           suggested_actions = PList [], raw_response = PStr sample_json \<rparr>"
proof -
  have r: "reply_with sample_json (u ''gemini-2.0-flash'')
             (build_classification_prompt sample_email sample_summary) = Reply (Some sample_json)"
    by (simp add: reply_with_def)
  have n: "sample_parsed \<noteq> []" by (simp add: sample_parsed_def)
  have d: "sample_db \<noteq> []" by (simp add: sample_db_def)
  have k: "dict_get sample_parsed (u ''category'') (PStr default_category) = PStr (u ''QA'')"
      "dict_get sample_parsed (u ''category_description'') (PStr []) = PStr []"
      "dict_get sample_parsed (u ''urgency'') (PStr default_urgency) = PStr default_urgency"
      "dict_get sample_parsed (u ''urgency_reason'') (PStr []) = PStr []"
      "dict_get sample_parsed (u ''summary'') (PStr []) = PStr []"
      "dict_get sample_parsed (u ''key_points'') (PList []) = PList []"
      "dict_get sample_parsed (u ''recommended_department'') (PStr []) = PStr (u ''Lab X'')"
      "dict_get sample_parsed (u ''recommended_lab'') (PStr []) = PStr []"
      "dict_get sample_parsed (u ''recommended_team'') (PStr []) = PStr []"
      "dict_get sample_parsed (u ''suggested_actions'') (PList []) = PList []"
    by (simp_all add: dict_get_def sample_parsed_def u_def)
  from classify_email_copies_fields[of "reply_with sample_json" "u ''gemini-2.0-flash''"
      sample_email sample_summary sample_json sample_loads sample_parsed utf8_console sample_db,
      OF r parse_sample_json n]
  have a: "classify_email utf8_console sample_loads (reply_with sample_json) (u ''gemini-2.0-flash'')
             sample_email sample_db sample_summary
   = Inr \<lparr> category = PStr (u ''QA''), category_description = PStr [],
           urgency = PStr default_urgency, urgency_reason = PStr [], summary = PStr [],
           key_points = PList [], recommended_department = PStr (u ''Lab X''),
           recommended_lab = PStr [], recommended_team = PStr [],
           recommended_researchers = PList [sample_entry, sample_entry_C3],
           suggested_actions = PList [], raw_response = PStr sample_json \<rparr>"
    using d by (simp add: k sample_matches)
  from classify_email_copies_fields[of "reply_with sample_json" "u ''gemini-2.0-flash''"
      sample_email sample_summary sample_json sample_loads sample_parsed utf8_console "[]",
      OF r parse_sample_json n]
  have b: "classify_email utf8_console sample_loads (reply_with sample_json) (u ''gemini-2.0-flash'')
             sample_email [] sample_summary
   = Inr \<lparr> category = PStr (u ''QA''), category_description = PStr [],
           urgency = PStr default_urgency, urgency_reason = PStr [], summary = PStr [],
           key_points = PList [], recommended_department = PStr (u ''Lab X''),
           recommended_lab = PStr [], recommended_team = PStr [],
           recommended_researchers = PList [],
           suggested_actions = PList [], raw_response = PStr sample_json \<rparr>"
    by (simp add: k)
  from a b show ?thesis by (rule conjI)
qed

section \<open>Properties of build\_classification\_prompt\<close>

text \<open>
  C9. The prompt is a function of the four fields of the email and of the directory
  summary, together with the constants of the module: two calls on inputs that agree on
  these give the same text, code point for code point.
\<close>

theorem build_classification_prompt_deterministic:
  assumes "sender em1 = sender em2" and "date em1 = date em2"
    and "subject em1 = subject em2" and "body em1 = body em2"
    and "dept_summary1 = dept_summary2"
  shows "build_classification_prompt em1 dept_summary1
           = build_classification_prompt em2 dept_summary2"
  using assms by (simp add: build_classification_prompt_def)

theorem build_classification_prompt_deterministic_witness:
  "build_classification_prompt sample_email sample_summary
     = build_classification_prompt (sample_email \<lparr> sender := [] \<rparr>) sample_summary"
  by (rule build_classification_prompt_deterministic) (simp_all add: sample_email_def)

end
